theory Spec2Isabelle
  imports Main
begin

section \<open>Data model of \<open>src/transactional.ts\<close>\<close>

text \<open>
  The module is asynchronous TypeScript. One logical execution path is modelled: every
  \<open>await\<close> is sequential composition, a promise that rejects (or a \<open>throw\<close>) is the
  \<open>Inl\<close> branch of a sum, and everything the code reads or changes outside its own
  arguments is a field of the record \<open>world\<close>, passed in and returned.
\<close>

text \<open>A thrown value: the error's constructor name and its message.\<close>

datatype error = Error (kind: string) (message: string)

text \<open>The four isolation levels of \<open>TransactionOptions.isolationLevel\<close>.\<close>

datatype isolation = ReadUncommitted | ReadCommitted | RepeatableRead | Serializable

text \<open>
  \<open>retry?: { attempts: number, delay: number }\<close>. The numbers are integers here, of either
  sign; fractions and \<open>Infinity\<close> (with which a call around a unit of work that always
  fails would never give up) are left out.
\<close>

record retry_config =
  attempts :: int
  delay :: int

text \<open>\<open>interface TransactionOptions\<close>: every field is optional, \<open>None\<close> is an absent field.\<close>

record TransactionOptions =
  connection :: "string option"
  isolationLevel :: "isolation option"
  debug :: "bool option"
  timeout :: "int option"
  retry :: "retry_config option"

text \<open>The default value \<open>{}\<close> of the \<open>options\<close> parameters.\<close>

definition no_options :: TransactionOptions where
  "no_options = \<lparr>connection = None, isolationLevel = None, debug = None,
     timeout = None, retry = None\<rparr>"

text \<open>
  A \<open>TransactionClientContract\<close> is an object of the data layer; it is identified by the
  number the data layer gave it when it was opened.
\<close>

type_synonym handle = nat

text \<open>The template string \<open>trx_${Date.now()}_${++this.transactionCounter}\<close>, as its two parts.\<close>

datatype transaction_id = TrxId int nat

text \<open>\<open>interface TransactionContext\<close> (the field \<open>id\<close> is named \<open>id_ctx\<close>).\<close>

record TransactionContext =
  transaction :: handle
  id_ctx :: transaction_id
  startTime :: int
  options :: TransactionOptions

text \<open>\<open>db\<close> itself, or \<open>db.connection(name)\<close>.\<close>

datatype database = Db | DbConnection string

text \<open>
  What the module asks of its environment, in the order it asks: \<open>database.transaction\<close>
  (answered with a handle, or failing), \<open>trx.commit()\<close>, \<open>trx.rollback()\<close> (recorded when
  called, whatever the outcome) and \<open>setTimeout\<close>.
\<close>

datatype call =
    Opened database "isolation option" handle
  | OpenFailed database "isolation option"
  | TrxCommit handle
  | TrxRollback handle
  | SetTimeout int

text \<open>The lines of \<open>console.log\<close>, by their template.\<close>

datatype log_line =
    Reusing transaction_id
  | Starting transaction_id
  | Committed transaction_id int
  | RolledBack transaction_id int
  | Retrying transaction_id int

text \<open>
  The state around one execution path: the store of the \<open>AsyncLocalStorage\<close>, the private
  \<open>transactionCounter\<close>, the clock read by \<open>Date.now()\<close> (in milliseconds; a unit of work
  or a timer moves it), the number of handles the data layer has given out, and the two
  traces.
\<close>

record world =
  store :: "TransactionContext option"
  transactionCounter :: nat
  clock :: int
  opened :: nat
  calls :: "call list"
  console :: "log_line list"

text \<open>
  The data layer (\<open>@adonisjs/lucid\<close>) is imported, not part of the module; its outcomes are
  a parameter. \<open>transaction_fails d i k\<close> is the failure, if any, of the call of
  \<open>transaction\<close> on database \<open>d\<close> made when \<open>k\<close> handles have been given out
  (a failure of \<open>db.connection\<close> is the same failure: both are outside the \<open>try\<close>).
\<close>

record data_layer =
  transaction_fails :: "database \<Rightarrow> isolation option \<Rightarrow> nat \<Rightarrow> error option"
  commit_fails :: "handle \<Rightarrow> error option"
  rollback_fails :: "handle \<Rightarrow> error option"

text \<open>An asynchronous function of no arguments: \<open>() => Promise<T>\<close>.\<close>

type_synonym 'a action = "world \<Rightarrow> (error + 'a) \<times> world"

section \<open>The environment's operations\<close>

definition console_log :: "log_line \<Rightarrow> world \<Rightarrow> world" where
  "console_log l w = w\<lparr>console := console w @ [l]\<rparr>"

definition db_transaction ::
  "data_layer \<Rightarrow> database \<Rightarrow> isolation option \<Rightarrow> world \<Rightarrow> (error + handle) \<times> world" where
  "db_transaction dl d lvl w =
     (case transaction_fails dl d lvl (opened w) of
        Some e \<Rightarrow> (Inl e, w\<lparr>calls := calls w @ [OpenFailed d lvl]\<rparr>)
      | None \<Rightarrow> (Inr (opened w),
          w\<lparr>opened := Suc (opened w), calls := calls w @ [Opened d lvl (opened w)]\<rparr>))"

definition trx_commit :: "data_layer \<Rightarrow> handle \<Rightarrow> world \<Rightarrow> (error + unit) \<times> world" where
  "trx_commit dl trx w =
     (case commit_fails dl trx of
        Some e \<Rightarrow> (Inl e, w\<lparr>calls := calls w @ [TrxCommit trx]\<rparr>)
      | None \<Rightarrow> (Inr (), w\<lparr>calls := calls w @ [TrxCommit trx]\<rparr>))"

definition trx_rollback :: "data_layer \<Rightarrow> handle \<Rightarrow> world \<Rightarrow> (error + unit) \<times> world" where
  "trx_rollback dl trx w =
     (case rollback_fails dl trx of
        Some e \<Rightarrow> (Inl e, w\<lparr>calls := calls w @ [TrxRollback trx]\<rparr>)
      | None \<Rightarrow> (Inr (), w\<lparr>calls := calls w @ [TrxRollback trx]\<rparr>))"

text \<open>
  The delay a timer of Node really has: a delay below 1 or above 2147483647 is taken
  for 1 millisecond.
\<close>

definition timer_wait :: "int \<Rightarrow> int" where
  "timer_wait ms = (if ms < 1 \<or> 2147483647 < ms then 1 else ms)"

text \<open>
  \<open>await new Promise(resolve => setTimeout(resolve, ms))\<close>: the timer is recorded with the
  delay asked for, and the clock moves on by the delay the timer really has, the least
  time the wait takes.
\<close>

definition setTimeout :: "int \<Rightarrow> world \<Rightarrow> world" where
  "setTimeout ms w = w\<lparr>clock := clock w + timer_wait ms, calls := calls w @ [SetTimeout ms]\<rparr>"

text \<open>
  \<open>storage.run(context, callback)\<close>: the callback sees \<open>context\<close> as the store; the store
  the caller had is back when it ends, with a result or with a failure.
\<close>

definition storage_run :: "TransactionContext \<Rightarrow> 'a action \<Rightarrow> 'a action" where
  "storage_run context callback w =
     (case callback (w\<lparr>store := Some context\<rparr>) of
        (r, w') \<Rightarrow> (r, w'\<lparr>store := store w\<rparr>))"

section \<open>\<open>class TransactionManager\<close>\<close>

definition getCurrentContext :: "world \<Rightarrow> TransactionContext option" where
  "getCurrentContext w = store w"

definition getCurrentTransaction :: "world \<Rightarrow> handle option" where
  "getCurrentTransaction w = map_option transaction (getCurrentContext w)"

definition isInTransaction :: "world \<Rightarrow> bool" where
  "isInTransaction w = (getCurrentContext w \<noteq> None)"

definition generateTransactionId :: "world \<Rightarrow> transaction_id \<times> world" where
  "generateTransactionId w =
     (TrxId (clock w) (Suc (transactionCounter w)),
      w\<lparr>transactionCounter := Suc (transactionCounter w)\<rparr>)"

text \<open>\<open>options.debug\<close> as a condition.\<close>

definition debugging :: "TransactionOptions \<Rightarrow> bool" where
  "debugging opts = (debug opts = Some True)"

text \<open>
  \<open>options.connection ? db.connection(options.connection) : db\<close>: the empty string is
  falsy, as an absent field is.
\<close>

definition database_of :: "TransactionOptions \<Rightarrow> database" where
  "database_of opts =
     (case connection opts of
        None \<Rightarrow> Db
      | Some c \<Rightarrow> if c = [] then Db else DbConnection c)"

text \<open>
  \<open>runInTransaction\<close>. The \<open>try\<close> block holds the run of \<open>fn\<close> and the commit; its outcome
  is computed first, and the \<open>catch\<close> block is the \<open>Inl\<close> branch of that outcome. The
  function calls itself only in the \<open>catch\<close> block, with one attempt less.
\<close>

function runInTransaction ::
  "data_layer \<Rightarrow> 'a action \<Rightarrow> TransactionOptions \<Rightarrow> 'a action" where
  "runInTransaction dl fn opts w =
     (case getCurrentContext w of
        Some existingContext \<Rightarrow>
          fn (if debugging opts then console_log (Reusing (id_ctx existingContext)) w else w)
      | None \<Rightarrow>
         (case generateTransactionId w of (transactionId, w1) \<Rightarrow>
          case db_transaction dl (database_of opts) (isolationLevel opts) w1 of
            (Inl e, w2) \<Rightarrow> (Inl e, w2)
          | (Inr trx, w2) \<Rightarrow>
             let context = \<lparr>transaction = trx, id_ctx = transactionId,
                            startTime = clock w2, options = opts\<rparr>;
                 w3 = (if debugging opts then console_log (Starting transactionId) w2 else w2);
                 tried =
                   (case storage_run context fn w3 of
                      (Inl e, w4) \<Rightarrow> (Inl e, w4)
                    | (Inr result, w4) \<Rightarrow>
                       (case trx_commit dl trx w4 of
                          (Inl e, w5) \<Rightarrow> (Inl e, w5)
                        | (Inr u, w5) \<Rightarrow>
                            (Inr result,
                             if debugging opts
                             then console_log
                                    (Committed transactionId (clock w5 - startTime context)) w5
                             else w5)))
             in
             case tried of
               (Inr result, w6) \<Rightarrow> (Inr result, w6)
             | (Inl error, w6) \<Rightarrow>
                (case trx_rollback dl trx w6 of
                   (Inl e, w7) \<Rightarrow> (Inl e, w7)
                 | (Inr u, w7) \<Rightarrow>
                    let w8 = (if debugging opts
                              then console_log
                                     (RolledBack transactionId (clock w7 - startTime context)) w7
                              else w7)
                    in
                    case retry opts of
                      None \<Rightarrow> (Inl error, w8)
                    | Some r \<Rightarrow>
                       if attempts r > 0
                       then runInTransaction dl fn
                              (opts\<lparr>retry := Some (r\<lparr>attempts := attempts r - 1\<rparr>)\<rparr>)
                              (setTimeout (delay r)
                                 (if debugging opts
                                  then console_log (Retrying transactionId (attempts r)) w8
                                  else w8))
                       else (Inl error, w8))))"
  by pat_completeness auto
termination
  by (relation "measure (\<lambda>(dl, fn, opts, w).
        case retry opts of None \<Rightarrow> 0 | Some r \<Rightarrow> nat (attempts r))") auto

declare runInTransaction.simps [simp del]

text \<open>
  The exported \<open>getCurrentTransaction\<close>, \<open>isInTransaction\<close> and \<open>runInTransaction\<close> only
  forward to the one \<open>transactionManager\<close>; the functions above stand for both.
\<close>

section \<open>\<open>injectTransaction\<close>\<close>

text \<open>
  \<open>type ModelOptions = Record<string, any>\<close>: the values a field can hold, and an object
  as the list of its own fields in insertion order. Numbers are integers here.
\<close>

datatype jsval =
    JUndefined
  | JNull
  | JBool bool
  | JNum int
  | JStr string
  | JTrx handle
  | JObj "(string \<times> jsval) list"

type_synonym ModelOptions = "(string \<times> jsval) list"

text \<open>What JavaScript takes for true in a condition.\<close>

fun truthy :: "jsval \<Rightarrow> bool" where
  "truthy JUndefined = False"
| "truthy JNull = False"
| "truthy (JBool b) = b"
| "truthy (JNum n) = (n \<noteq> 0)"
| "truthy (JStr s) = (s \<noteq> [])"
| "truthy (JTrx h) = True"
| "truthy (JObj fs) = True"

text \<open>\<open>options?.client\<close>: \<open>undefined\<close> when \<open>options\<close> is absent or has no such field.\<close>

definition optional_field :: "ModelOptions option \<Rightarrow> string \<Rightarrow> jsval" where
  "optional_field ob k =
     (case ob of
        None \<Rightarrow> JUndefined
      | Some fs \<Rightarrow> (case map_of fs k of None \<Rightarrow> JUndefined | Some v \<Rightarrow> v))"

text \<open>
  A field written in an object literal after a spread: an existing field keeps its place
  and takes the new value, a new field goes last.
\<close>

fun set_field :: "string \<Rightarrow> jsval \<Rightarrow> ModelOptions \<Rightarrow> ModelOptions" where
  "set_field k v [] = [(k, v)]"
| "set_field k v ((k', v') # fs) =
     (if k' = k then (k, v) # fs else (k', v') # set_field k v fs)"

text \<open>\<open>options || {}\<close>, and the spread \<open>...options\<close> of an absent \<open>options\<close>.\<close>

definition or_empty :: "ModelOptions option \<Rightarrow> ModelOptions" where
  "or_empty ob = (case ob of None \<Rightarrow> [] | Some fs \<Rightarrow> fs)"

definition injectTransaction :: "ModelOptions option \<Rightarrow> world \<Rightarrow> ModelOptions" where
  "injectTransaction ob w =
     (case getCurrentTransaction w of
        None \<Rightarrow> or_empty ob
      | Some trx \<Rightarrow>
          if truthy (optional_field ob ''client'') then or_empty ob
          else set_field ''client'' (JTrx trx) (or_empty ob))"

section \<open>\<open>TransactionUtils\<close>\<close>

text \<open>
  \<open>conditional\<close>: the result type is \<open>T | null\<close>, a union inside the values of
  JavaScript, so the operation's results are \<open>jsval\<close>s and \<open>null\<close> is one of them.
\<close>

definition conditional ::
  "data_layer \<Rightarrow> bool action \<Rightarrow> jsval action \<Rightarrow> TransactionOptions \<Rightarrow> jsval action" where
  "conditional dl condition operation opts w =
     (case condition w of
        (Inl e, w1) \<Rightarrow> (Inl e, w1)
      | (Inr shouldExecute, w1) \<Rightarrow>
          if \<not> shouldExecute then (Inr JNull, w1)
          else runInTransaction dl operation opts w1)"

text \<open>
  \<open>withSavepoint\<close>: the \<open>try\<close> around the operation re-throws what it catches, so it is
  the operation itself.
\<close>

definition withSavepoint :: "string \<Rightarrow> 'a action \<Rightarrow> 'a action" where
  "withSavepoint name operation w =
     (case getCurrentTransaction w of
        None \<Rightarrow>
          (Inl (Error ''Error''
             ''withSavepoint can only be used within an existing transaction''), w)
      | Some trx \<Rightarrow> operation w)"

section \<open>Vocabulary of the statements\<close>

text \<open>
  The worlds a top-level call goes through, written out from the body of
  \<open>runInTransaction\<close> for a call that starts in \<open>w\<close> and whose transaction opens.
  \<open>fresh_context\<close> is the context it binds and \<open>body_world\<close> the world in which the unit
  of work starts.
\<close>

definition fresh_context :: "TransactionOptions \<Rightarrow> world \<Rightarrow> TransactionContext" where
  "fresh_context opts w =
     \<lparr>transaction = opened w,
      id_ctx = TrxId (clock w) (Suc (transactionCounter w)),
      startTime = clock w,
      options = opts\<rparr>"

definition body_world :: "TransactionOptions \<Rightarrow> world \<Rightarrow> world" where
  "body_world opts w =
     (let w2 = w\<lparr>transactionCounter := Suc (transactionCounter w),
                 opened := Suc (opened w),
                 calls := calls w @ [Opened (database_of opts) (isolationLevel opts) (opened w)]\<rparr>;
          w3 = (if debugging opts
                then console_log (Starting (id_ctx (fresh_context opts w))) w2 else w2)
      in w3\<lparr>store := Some (fresh_context opts w)\<rparr>)"

text \<open>
  The world in which the \<open>catch\<close> block starts: after a failure of the unit of work that
  left \<open>w'\<close>, and after a failure of the commit that followed a unit of work that left \<open>w'\<close>.
\<close>

definition body_failed :: "world \<Rightarrow> world" where
  "body_failed w' = w'\<lparr>store := None\<rparr>"

definition commit_failed :: "world \<Rightarrow> world \<Rightarrow> world" where
  "commit_failed w w' = w'\<lparr>store := None, calls := calls w' @ [TrxCommit (opened w)]\<rparr>"

text \<open>
  From the world \<open>w6\<close> at the start of the \<open>catch\<close> block: the world after the rollback
  and its log line, and the world in which the retry starts.
\<close>

definition rolled_back :: "TransactionOptions \<Rightarrow> world \<Rightarrow> world \<Rightarrow> world" where
  "rolled_back opts w w6 =
     (let w7 = w6\<lparr>calls := calls w6 @ [TrxRollback (opened w)]\<rparr>
      in if debugging opts
         then console_log (RolledBack (id_ctx (fresh_context opts w)) (clock w7 - clock w)) w7
         else w7)"

definition retry_world :: "TransactionOptions \<Rightarrow> retry_config \<Rightarrow> world \<Rightarrow> world \<Rightarrow> world" where
  "retry_world opts r w w6 =
     setTimeout (delay r)
       (if debugging opts
        then console_log (Retrying (id_ctx (fresh_context opts w)) (attempts r))
               (rolled_back opts w w6)
        else rolled_back opts w w6)"

definition fewer_attempts :: "TransactionOptions \<Rightarrow> retry_config \<Rightarrow> TransactionOptions" where
  "fewer_attempts opts r = opts\<lparr>retry := Some (r\<lparr>attempts := attempts r - 1\<rparr>)\<rparr>"

text \<open>The \<open>Reusing\<close> line a nested call with \<open>debug\<close> writes before it runs its unit of work.\<close>

definition reuse_log :: "TransactionOptions \<Rightarrow> world \<Rightarrow> world" where
  "reuse_log opts w =
     (case getCurrentContext w of
        None \<Rightarrow> w
      | Some c \<Rightarrow> if debugging opts then console_log (Reusing (id_ctx c)) w else w)"



text \<open>\<open>options.retry && options.retry.attempts > 0\<close>, the condition of the retry.\<close>

definition will_retry :: "TransactionOptions \<Rightarrow> bool" where
  "will_retry opts = (case retry opts of None \<Rightarrow> False | Some r \<Rightarrow> attempts r > 0)"


section \<open>Concrete inputs\<close>

text \<open>A world in which nothing has happened yet, and data layers for the examples.\<close>

definition w0 :: world where
  "w0 = \<lparr>store = None, transactionCounter = 0, clock = 1000, opened = 0,
          calls = [], console = []\<rparr>"

definition healthy :: data_layer where
  "healthy = \<lparr>transaction_fails = (\<lambda>d lvl k. None), commit_fails = (\<lambda>h. None),
               rollback_fails = (\<lambda>h. None)\<rparr>"

definition commit_broken :: data_layer where
  "commit_broken = \<lparr>transaction_fails = (\<lambda>d lvl k. None),
                     commit_fails = (\<lambda>h. Some (Error ''Error'' ''commit failed'')),
                     rollback_fails = (\<lambda>h. None)\<rparr>"

definition unreachable :: data_layer where
  "unreachable = \<lparr>transaction_fails = (\<lambda>d lvl k. Some (Error ''Error'' ''connection refused'')),
                   commit_fails = (\<lambda>h. None), rollback_fails = (\<lambda>h. None)\<rparr>"

definition rollback_broken :: data_layer where
  "rollback_broken = \<lparr>transaction_fails = (\<lambda>d lvl k. None), commit_fails = (\<lambda>h. None),
                       rollback_fails = (\<lambda>h. Some (Error ''RangeError'' ''rollback failed''))\<rparr>"


definition returning :: "'a \<Rightarrow> 'a action" where
  "returning v w = (Inr v, w)"

definition throwing :: "error \<Rightarrow> 'a action" where
  "throwing e w = (Inl e, w)"

text \<open>A unit of work that fails with the handle of the current transaction in its message.\<close>

definition failing_with_handle :: "'a action" where
  "failing_with_handle w =
     (case getCurrentTransaction w of
        None \<Rightarrow> (Inl (Error ''Error'' ''no transaction''), w)
      | Some h \<Rightarrow> (Inl (Error ''Error'' (replicate h CHR ''x'')), w))"



definition retry_twice :: TransactionOptions where
  "retry_twice = no_options\<lparr>retry := Some \<lparr>attempts = 2, delay = 50\<rparr>\<rparr>"

definition in_transaction :: world where
  "in_transaction = body_world no_options w0"

section \<open>One step of a top-level call\<close>

lemmas env_defs = getCurrentContext_def getCurrentTransaction_def generateTransactionId_def
  db_transaction_def trx_commit_def trx_rollback_def storage_run_def console_log_def
  setTimeout_def

lemmas vocab_defs = fresh_context_def body_world_def body_failed_def commit_failed_def
  rolled_back_def retry_world_def fewer_attempts_def

text \<open>What the vocabulary's worlds hold in the fields the statements read.\<close>

lemma body_world_sel [simp]:
  "store (body_world opts w) = Some (fresh_context opts w)"
  "opened (body_world opts w) = Suc (opened w)"
  "calls (body_world opts w) =
     calls w @ [Opened (database_of opts) (isolationLevel opts) (opened w)]"
  by (simp_all add: body_world_def console_log_def Let_def)

lemma body_failed_sel [simp]:
  "store (body_failed w') = None"
  "opened (body_failed w') = opened w'"
  "calls (body_failed w') = calls w'"
  by (simp_all add: body_failed_def)

lemma commit_failed_sel [simp]:
  "store (commit_failed w w') = None"
  "opened (commit_failed w w') = opened w'"
  "calls (commit_failed w w') = calls w' @ [TrxCommit (opened w)]"
  by (simp_all add: commit_failed_def)

lemma rolled_back_sel [simp]:
  "store (rolled_back opts w w6) = store w6"
  "opened (rolled_back opts w w6) = opened w6"
  "calls (rolled_back opts w w6) = calls w6 @ [TrxRollback (opened w)]"
  by (simp_all add: rolled_back_def console_log_def Let_def)

lemma retry_world_sel [simp]:
  "store (retry_world opts r w w6) = store w6"
  "opened (retry_world opts r w w6) = opened w6"
  "calls (retry_world opts r w w6) =
     calls w6 @ [TrxRollback (opened w), SetTimeout (delay r)]"
  by (simp_all add: retry_world_def setTimeout_def console_log_def)

lemma clock_sel [simp]:
  "clock (body_world opts w) = clock w"
  "clock (body_failed w') = clock w'"
  "clock (rolled_back opts w w6) = clock w6"
  "clock (retry_world opts r w w6) = clock w6 + timer_wait (delay r)"
  by (simp_all add: body_world_def body_failed_def rolled_back_def retry_world_def
      setTimeout_def console_log_def Let_def)

lemma fewer_attempts_sel [simp]:
  "retry (fewer_attempts opts r) = Some (r\<lparr>attempts := attempts r - 1\<rparr>)"
  "database_of (fewer_attempts opts r) = database_of opts"
  "isolationLevel (fewer_attempts opts r) = isolationLevel opts"
  "debugging (fewer_attempts opts r) = debugging opts"
  by (simp_all add: fewer_attempts_def database_of_def debugging_def)

text \<open>The reuse branch: a context is current.\<close>

lemma run_reuse:
  assumes "getCurrentContext w = Some c"
  shows "runInTransaction dl fn opts w =
           fn (if debugging opts then console_log (Reusing (id_ctx c)) w else w)"
  using assms by (simp add: runInTransaction.simps)

text \<open>The open branch, when \<open>database.transaction\<close> fails: nothing is caught.\<close>

lemma run_open_failed:
  assumes "getCurrentContext w = None"
      and "transaction_fails dl (database_of opts) (isolationLevel opts) (opened w) = Some e"
  shows "runInTransaction dl fn opts w =
           (Inl e, w\<lparr>transactionCounter := Suc (transactionCounter w),
                     calls := calls w @ [OpenFailed (database_of opts) (isolationLevel opts)]\<rparr>)"
  using assms by (simp add: runInTransaction.simps [of dl fn opts w] env_defs)

text \<open>The open branch, when the unit of work and the commit succeed.\<close>

lemma run_committed:
  assumes "getCurrentContext w = None"
      and "transaction_fails dl (database_of opts) (isolationLevel opts) (opened w) = None"
      and "fn (body_world opts w) = (Inr result, w')"
      and "commit_fails dl (opened w) = None"
  shows "runInTransaction dl fn opts w =
           (Inr result,
            let w5 = w'\<lparr>store := None, calls := calls w' @ [TrxCommit (opened w)]\<rparr>
            in if debugging opts
               then console_log (Committed (id_ctx (fresh_context opts w)) (clock w5 - clock w)) w5
               else w5)"
  using assms
  by (cases "debugging opts")
     (simp_all add: runInTransaction.simps [of dl fn opts w] env_defs vocab_defs Let_def)

text \<open>The \<open>catch\<close> block after a failure of the unit of work.\<close>

lemma run_caught_body:
  assumes "getCurrentContext w = None"
      and "transaction_fails dl (database_of opts) (isolationLevel opts) (opened w) = None"
      and "fn (body_world opts w) = (Inl e, w')"
  shows "runInTransaction dl fn opts w =
          (case rollback_fails dl (opened w) of
             Some e' \<Rightarrow>
               (Inl e', (body_failed w')\<lparr>calls := calls w' @ [TrxRollback (opened w)]\<rparr>)
           | None \<Rightarrow>
              (case retry opts of
                 None \<Rightarrow> (Inl e, rolled_back opts w (body_failed w'))
               | Some r \<Rightarrow>
                  if attempts r > 0
                  then runInTransaction dl fn (fewer_attempts opts r)
                         (retry_world opts r w (body_failed w'))
                  else (Inl e, rolled_back opts w (body_failed w'))))"
  using assms
  by (cases "debugging opts")
     (simp_all add: runInTransaction.simps [of dl fn opts w] env_defs vocab_defs Let_def
      split: option.splits)

text \<open>The same \<open>catch\<close> block after a failure of the commit.\<close>

lemma run_caught_commit:
  assumes "getCurrentContext w = None"
      and "transaction_fails dl (database_of opts) (isolationLevel opts) (opened w) = None"
      and "fn (body_world opts w) = (Inr result, w')"
      and "commit_fails dl (opened w) = Some e"
  shows "runInTransaction dl fn opts w =
          (case rollback_fails dl (opened w) of
             Some e' \<Rightarrow>
               (Inl e', (commit_failed w w')
                  \<lparr>calls := calls (commit_failed w w') @ [TrxRollback (opened w)]\<rparr>)
           | None \<Rightarrow>
              (case retry opts of
                 None \<Rightarrow> (Inl e, rolled_back opts w (commit_failed w w'))
               | Some r \<Rightarrow>
                  if attempts r > 0
                  then runInTransaction dl fn (fewer_attempts opts r)
                         (retry_world opts r w (commit_failed w w'))
                  else (Inl e, rolled_back opts w (commit_failed w w'))))"
  using assms
  by (cases "debugging opts")
     (simp_all add: runInTransaction.simps [of dl fn opts w] env_defs vocab_defs Let_def
      split: option.splits)

section \<open>Nested calls\<close>

text \<open>
  Two units of work that agree wherever a context is current cannot be told apart by
  \<open>runInTransaction\<close>: it runs its unit of work only with a context bound. By induction
  on the attempts left.
\<close>

lemma run_body_cong:
  assumes agree: "\<forall>v. getCurrentContext v \<noteq> None \<longrightarrow> f v = g v"
  shows "runInTransaction dl f opts w = runInTransaction dl g opts w"
proof (induction "case retry opts of None \<Rightarrow> 0 | Some r \<Rightarrow> nat (attempts r)"
         arbitrary: opts w rule: less_induct)
  case less
  have again: "runInTransaction dl f (fewer_attempts opts r) v =
               runInTransaction dl g (fewer_attempts opts r) v"
    if "retry opts = Some r" "attempts r > 0" for r v
    using that by (intro less) simp
  show ?case
  proof (cases "getCurrentContext w")
    case (Some c)
    then show ?thesis
      using agree by (simp add: run_reuse getCurrentContext_def console_log_def)
  next
    case None
    show ?thesis
    proof (cases "transaction_fails dl (database_of opts) (isolationLevel opts) (opened w)")
      case (Some e)
      then show ?thesis using None by (simp add: run_open_failed)
    next
      case ok: None
      have fg: "f (body_world opts w) = g (body_world opts w)"
        using agree by (simp add: getCurrentContext_def)
      obtain x w' where fx: "f (body_world opts w) = (x, w')"
        by (cases "f (body_world opts w)")
      then have gx: "g (body_world opts w) = (x, w')" using fg by simp
      show ?thesis
      proof (cases x)
        case (Inl e)
        show ?thesis
          using run_caught_body [where fn = f, OF None ok fx [unfolded Inl]]
            run_caught_body [where fn = g, OF None ok gx [unfolded Inl]] again
          by (simp split: option.splits)
      next
        case (Inr result)
        show ?thesis
        proof (cases "commit_fails dl (opened w)")
          case c: None
          show ?thesis
            using run_committed [where fn = f, OF None ok fx [unfolded Inr] c]
              run_committed [where fn = g, OF None ok gx [unfolded Inr] c]
            by simp
        next
          case c: (Some e)
          show ?thesis
            using run_caught_commit [where fn = f, OF None ok fx [unfolded Inr] c]
              run_caught_commit [where fn = g, OF None ok gx [unfolded Inr] c] again
            by (simp split: option.splits)
        qed
      qed
    qed
  qed
qed

lemma nested_transparent:
  "runInTransaction dl (runInTransaction dl fn inner) outer w =
   runInTransaction dl (\<lambda>v. fn (reuse_log inner v)) outer w"
  by (rule run_body_cong) (auto simp: run_reuse reuse_log_def)

text \<open>
  The calls of an outermost call around a nested call, when the outermost call makes one
  attempt: its unit of work returns and the commit succeeds, or its unit of work fails
  and no retry follows.
\<close>

lemma nested_once:
  assumes top: "getCurrentContext w = None"
      and ok: "transaction_fails dl (database_of outer) (isolationLevel outer) (opened w) = None"
      and leaf: "fn (reuse_log inner (body_world outer w)) = (x, w')"
      and last: "isl x \<longrightarrow> \<not> will_retry outer"
      and c: "\<not> isl x \<longrightarrow> commit_fails dl (opened w) = None"
  shows "calls (snd (runInTransaction dl (runInTransaction dl fn inner) outer w)) =
           calls w' @ [if isl x then TrxRollback (opened w) else TrxCommit (opened w)]"
proof -
  let ?g = "\<lambda>v. fn (reuse_log inner v)"
  have gx: "?g (body_world outer w) = (x, w')"
    using leaf by simp
  show ?thesis
  proof (cases x)
    case (Inl e)
    then have "\<not> will_retry outer" using last by simp
    then show ?thesis
      using run_caught_body [where fn = ?g and dl = dl, OF top ok gx [unfolded Inl]] Inl
      by (simp add: nested_transparent will_retry_def split: option.splits)
  next
    case (Inr result)
    then have "commit_fails dl (opened w) = None" using c by simp
    then show ?thesis
      using run_committed [where fn = ?g and dl = dl, OF top ok gx [unfolded Inr]] Inr
      by (simp add: nested_transparent Let_def console_log_def)
  qed
qed

text \<open>
  C1, as the claim states it, fails in its last part: one outermost call can open more
  than one transaction, and can issue a commit and a rollback. Here the unit of work of
  the nested call fails and the outermost call has two retry attempts: it opens three
  transactions and rolls back three. And here the unit of work of the nested call
  returns and the commit fails: the outermost call issues the commit and then the
  rollback.
\<close>

theorem nested_call_counterexample:
  "calls (snd (runInTransaction healthy
          (runInTransaction healthy
             (throwing (Error ''Error'' ''x'') :: nat action) no_options) retry_twice w0)) =
     [Opened Db None 0, TrxRollback 0, SetTimeout 50,
      Opened Db None 1, TrxRollback 1, SetTimeout 50,
      Opened Db None 2, TrxRollback 2]
   \<and> calls (snd (runInTransaction commit_broken
          (runInTransaction commit_broken (returning (1::nat)) no_options) no_options w0)) =
     [Opened Db None 0, TrxCommit 0, TrxRollback 0]"
  by (simp add: runInTransaction.simps env_defs Let_def w0_def healthy_def commit_broken_def
      throwing_def returning_def retry_twice_def no_options_def debugging_def database_of_def)

text \<open>
  C1, amended. A call of \<open>runInTransaction\<close> made while a context is current is the unit
  of work itself, started in the same world (with a \<open>Reusing\<close> line on the console when
  \<open>debug\<close> is set): it makes no call of its own to the data layer, whatever its options,
  and its result or failure is the unit of work's. So a unit of work wrapped in a nested
  call behaves, under any outer call, as the unit of work alone. And an outermost call
  whose transaction opens and that makes one attempt (its unit of work returns and the
  commit succeeds, or its unit of work fails and no retry attempt is left) makes exactly
  two calls to the data layer: the open, right before the unit of work starts, and right
  after it the commit, or the rollback, of that transaction.
\<close>

theorem nested_call_reuses_transaction:
  "(getCurrentContext v = Some c \<longrightarrow>
      runInTransaction dl fn inner v =
        fn (if debugging inner then console_log (Reusing (id_ctx c)) v else v))
   \<and> runInTransaction dl (runInTransaction dl fn inner) outer w =
       runInTransaction dl (\<lambda>v. fn (reuse_log inner v)) outer w
   \<and> (getCurrentContext w = None
        \<and> transaction_fails dl (database_of outer) (isolationLevel outer) (opened w) = None
        \<and> fn (reuse_log inner (body_world outer w)) = (x, w')
        \<and> (isl x \<longrightarrow> \<not> will_retry outer)
        \<and> (\<not> isl x \<longrightarrow> commit_fails dl (opened w) = None) \<longrightarrow>
      calls (reuse_log inner (body_world outer w)) =
        calls w @ [Opened (database_of outer) (isolationLevel outer) (opened w)]
      \<and> calls (snd (runInTransaction dl (runInTransaction dl fn inner) outer w)) =
        calls w' @ [if isl x then TrxRollback (opened w) else TrxCommit (opened w)])"
proof -
  have started: "calls (reuse_log inner (body_world outer w)) =
        calls w @ [Opened (database_of outer) (isolationLevel outer) (opened w)]"
    by (simp add: reuse_log_def getCurrentContext_def console_log_def)
  show ?thesis
    using run_reuse [of v c dl fn inner] nested_transparent [of dl fn inner outer w]
      nested_once [of w dl outer fn inner x w'] started
    by blast
qed

theorem nested_call_reuses_transaction_witness:
  "getCurrentContext in_transaction = Some (fresh_context no_options w0)
   \<and> runInTransaction healthy (returning (1::nat)) retry_twice in_transaction =
       (Inr 1, in_transaction)
   \<and> getCurrentContext w0 = None
   \<and> transaction_fails healthy (database_of no_options) (isolationLevel no_options) (opened w0)
       = None
   \<and> commit_fails healthy (opened w0) = None
   \<and> \<not> will_retry no_options
   \<and> calls (snd (runInTransaction healthy
               (runInTransaction healthy (returning (1::nat)) retry_twice) no_options w0)) =
       [Opened Db None 0, TrxCommit 0]
   \<and> calls (snd (runInTransaction healthy
               (runInTransaction healthy
                  (throwing (Error ''Error'' ''x'') :: nat action) retry_twice) no_options w0)) =
       [Opened Db None 0, TrxRollback 0]"
proof -
  let ?ok = "returning (1::nat)" and ?bad = "throwing (Error ''Error'' ''x'') :: nat action"
  let ?b = "reuse_log retry_twice (body_world no_options w0)"
  have cur: "getCurrentContext in_transaction = Some (fresh_context no_options w0)"
    by (simp add: in_transaction_def getCurrentContext_def)
  have top: "getCurrentContext w0 = None"
    by (simp add: w0_def getCurrentContext_def)
  have ok: "transaction_fails healthy (database_of no_options) (isolationLevel no_options)
              (opened w0) = None"
    and c: "commit_fails healthy (opened w0) = None"
    by (simp_all add: healthy_def)
  have nr: "\<not> will_retry no_options"
    by (simp add: will_retry_def no_options_def)
  have leaf_ok: "?ok ?b = (Inr 1, ?b)"
    by (simp add: returning_def)
  have leaf_bad: "?bad ?b = (Inl (Error ''Error'' ''x''), ?b)"
    by (simp add: throwing_def)
  have b: "calls ?b = [Opened Db None 0]"
    by (simp add: reuse_log_def getCurrentContext_def console_log_def w0_def
        database_of_def no_options_def)
  note inst_ok = nested_call_reuses_transaction
    [of in_transaction "fresh_context no_options w0" healthy ?ok retry_twice
        no_options w0 "Inr 1" ?b]
  note inst_bad = nested_call_reuses_transaction
    [of in_transaction "fresh_context no_options w0" healthy ?bad retry_twice
        no_options w0 "Inl (Error ''Error'' ''x'')" ?b]
  have "runInTransaction healthy ?ok retry_twice in_transaction =
          ?ok (if debugging retry_twice
               then console_log (Reusing (id_ctx (fresh_context no_options w0))) in_transaction
               else in_transaction)"
    using inst_ok cur by blast
  then have inner: "runInTransaction healthy ?ok retry_twice in_transaction =
                 (Inr 1, in_transaction)"
    by (simp add: returning_def debugging_def retry_twice_def no_options_def)
  have "calls (snd (runInTransaction healthy
                 (runInTransaction healthy ?ok retry_twice) no_options w0)) =
        calls ?b @ [if isl (Inr 1 :: error + nat)
                    then TrxRollback (opened w0) else TrxCommit (opened w0)]"
    using inst_ok top ok leaf_ok c nr by blast
  then have committed: "calls (snd (runInTransaction healthy
                 (runInTransaction healthy ?ok retry_twice) no_options w0)) =
               [Opened Db None 0, TrxCommit 0]"
    using b by (simp add: w0_def)
  have "calls (snd (runInTransaction healthy
                 (runInTransaction healthy ?bad retry_twice) no_options w0)) =
        calls ?b @ [if isl (Inl (Error ''Error'' ''x'') :: error + nat)
                    then TrxRollback (opened w0) else TrxCommit (opened w0)]"
    using inst_bad top ok leaf_bad c nr by blast
  then have rolled: "calls (snd (runInTransaction healthy
                 (runInTransaction healthy ?bad retry_twice) no_options w0)) =
               [Opened Db None 0, TrxRollback 0]"
    using b by (simp add: w0_def)
  show ?thesis
    using cur top ok c nr inner committed rolled by simp
qed

section \<open>A top-level call: commit, rollback, retry\<close>

text \<open>
  C2, as the claim states it, fails when the commit itself fails: the commit is inside
  the \<open>try\<close> block. Here the unit of work returns \<open>1\<close> in a top-level call and the
  commit fails: the rollback is called after the commit, and the caller gets the failure
  of the commit, not the result.
\<close>

theorem success_commits_once_counterexample:
  "getCurrentContext w0 = None
   \<and> returning (1::nat) (body_world no_options w0) = (Inr 1, body_world no_options w0)
   \<and> calls (snd (runInTransaction commit_broken (returning (1::nat)) no_options w0)) =
       [Opened Db None 0, TrxCommit 0, TrxRollback 0]
   \<and> fst (runInTransaction commit_broken (returning (1::nat)) no_options w0) =
       Inl (Error ''Error'' ''commit failed'')"
  by (simp add: runInTransaction.simps env_defs Let_def w0_def commit_broken_def
      returning_def no_options_def debugging_def database_of_def)

text \<open>
  C2, amended. In a top-level call (no context current on entry) whose transaction opens and
  whose commit succeeds, a unit of work that returns \<open>result\<close> and leaves the world \<open>w'\<close>
  makes the call return \<open>result\<close>. The unit of work started right after the one call
  that opened the transaction, and after it the call made exactly one more call to the
  data layer, the commit of that transaction: no rollback. No context is current
  afterwards.
\<close>

theorem success_commits_once:
  assumes "getCurrentContext w = None"
      and "transaction_fails dl (database_of opts) (isolationLevel opts) (opened w) = None"
      and "fn (body_world opts w) = (Inr result, w')"
      and "commit_fails dl (opened w) = None"
  shows "fst (runInTransaction dl fn opts w) = Inr result
       \<and> calls (body_world opts w) =
           calls w @ [Opened (database_of opts) (isolationLevel opts) (opened w)]
       \<and> calls (snd (runInTransaction dl fn opts w)) = calls w' @ [TrxCommit (opened w)]
       \<and> getCurrentContext (snd (runInTransaction dl fn opts w)) = None"
  using run_committed [where fn = fn, OF assms]
  by (simp add: Let_def console_log_def getCurrentContext_def)

theorem success_commits_once_witness:
  "getCurrentContext w0 = None
   \<and> transaction_fails healthy (database_of no_options) (isolationLevel no_options) (opened w0)
       = None
   \<and> returning (1::nat) (body_world no_options w0) = (Inr 1, body_world no_options w0)
   \<and> commit_fails healthy (opened w0) = None
   \<and> fst (runInTransaction healthy (returning (1::nat)) no_options w0) = Inr 1
   \<and> calls (snd (runInTransaction healthy (returning (1::nat)) no_options w0)) =
       [Opened Db None 0, TrxCommit 0]"
proof -
  have top: "getCurrentContext w0 = None"
    by (simp add: w0_def getCurrentContext_def)
  have ok: "transaction_fails healthy (database_of no_options) (isolationLevel no_options)
              (opened w0) = None"
    and c: "commit_fails healthy (opened w0) = None"
    by (simp_all add: healthy_def)
  have body: "returning (1::nat) (body_world no_options w0) = (Inr 1, body_world no_options w0)"
    by (simp add: returning_def)
  note inst = success_commits_once [where fn = "returning (1::nat)", OF top ok body c]
  have "calls (snd (runInTransaction healthy (returning (1::nat)) no_options w0)) =
        [Opened Db None 0, TrxCommit 0]"
    using inst by (simp add: w0_def database_of_def no_options_def)
  then show ?thesis
    using top ok body c inst by simp
qed

text \<open>
  C3, as the claim states it, fails when the rollback itself fails: the \<open>catch\<close> block
  awaits the rollback before it re-throws. Here the unit of work fails with a
  \<open>TypeError\<close> in a top-level call without retry and the rollback fails: the rollback is
  called once, and the caller gets the failure of the rollback in place of the
  \<open>TypeError\<close>.
\<close>

theorem failure_rolls_back_once_counterexample:
  "getCurrentContext w0 = None
   \<and> retry no_options = None
   \<and> (throwing (Error ''TypeError'' ''x'') :: nat action) (body_world no_options w0) =
       (Inl (Error ''TypeError'' ''x''), body_world no_options w0)
   \<and> calls (snd (runInTransaction rollback_broken
               (throwing (Error ''TypeError'' ''x'') :: nat action) no_options w0)) =
       [Opened Db None 0, TrxRollback 0]
   \<and> fst (runInTransaction rollback_broken
            (throwing (Error ''TypeError'' ''x'') :: nat action) no_options w0) =
       Inl (Error ''RangeError'' ''rollback failed'')"
  by (simp add: runInTransaction.simps env_defs Let_def w0_def rollback_broken_def
      throwing_def no_options_def debugging_def database_of_def)

text \<open>
  C3, amended. In a top-level call with no retry configured whose transaction opens, a unit of
  work that fails with \<open>e\<close> and leaves the world \<open>w'\<close> is followed by exactly one call to
  the data layer, the rollback of that transaction; and when that rollback does not
  fail itself, the call fails with \<open>e\<close>, the same value.
\<close>

theorem failure_rolls_back_once:
  assumes "getCurrentContext w = None"
      and "transaction_fails dl (database_of opts) (isolationLevel opts) (opened w) = None"
      and "fn (body_world opts w) = (Inl e, w')"
      and "retry opts = None"
  shows "calls (snd (runInTransaction dl fn opts w)) = calls w' @ [TrxRollback (opened w)]
       \<and> (rollback_fails dl (opened w) = None \<longrightarrow>
            fst (runInTransaction dl fn opts w) = Inl e)"
  using run_caught_body [where fn = fn, OF assms(1-3)] assms(4)
  by (simp split: option.splits)

theorem failure_rolls_back_once_witness:
  "getCurrentContext w0 = None
   \<and> transaction_fails healthy (database_of no_options) (isolationLevel no_options) (opened w0)
       = None
   \<and> throwing (Error ''TypeError'' ''x'') (body_world no_options w0) =
       (Inl (Error ''TypeError'' ''x'') :: error + nat, body_world no_options w0)
   \<and> retry no_options = None
   \<and> rollback_fails healthy (opened w0) = None
   \<and> calls (snd (runInTransaction healthy
               (throwing (Error ''TypeError'' ''x'') :: nat action) no_options w0)) =
       [Opened Db None 0, TrxRollback 0]
   \<and> fst (runInTransaction healthy
            (throwing (Error ''TypeError'' ''x'') :: nat action) no_options w0) =
       Inl (Error ''TypeError'' ''x'')"
proof -
  let ?fn = "throwing (Error ''TypeError'' ''x'') :: nat action"
  have top: "getCurrentContext w0 = None"
    by (simp add: w0_def getCurrentContext_def)
  have ok: "transaction_fails healthy (database_of no_options) (isolationLevel no_options)
              (opened w0) = None"
    and rb: "rollback_fails healthy (opened w0) = None"
    by (simp_all add: healthy_def)
  have body: "?fn (body_world no_options w0) =
                (Inl (Error ''TypeError'' ''x''), body_world no_options w0)"
    by (simp add: throwing_def)
  have nr: "retry no_options = None"
    by (simp add: no_options_def)
  note inst = failure_rolls_back_once [where fn = ?fn, OF top ok body nr]
  have "calls (snd (runInTransaction healthy ?fn no_options w0)) =
        [Opened Db None 0, TrxRollback 0]"
    using inst by (simp add: w0_def database_of_def no_options_def)
  then show ?thesis
    using top ok body nr rb inst by simp
qed








section \<open>Failures of the data layer\<close>

text \<open>
  C5, as the claim states it, fails: the commit is inside the \<open>try\<close> block. Here the
  unit of work returns \<open>1\<close> and every commit fails. Without retry the call goes on to
  roll the transaction back; with two attempts configured it runs the unit of work
  three times, in three transactions.
\<close>

theorem commit_failure_counterexample:
  "fst (returning (1::nat) (body_world no_options w0)) = Inr 1
   \<and> commit_fails commit_broken 0 = Some (Error ''Error'' ''commit failed'')
   \<and> calls (snd (runInTransaction commit_broken (returning (1::nat)) no_options w0)) =
       [Opened Db None 0, TrxCommit 0, TrxRollback 0]
   \<and> calls (snd (runInTransaction commit_broken (returning (1::nat)) retry_twice w0)) =
       [Opened Db None 0, TrxCommit 0, TrxRollback 0, SetTimeout 50,
        Opened Db None 1, TrxCommit 1, TrxRollback 1, SetTimeout 50,
        Opened Db None 2, TrxCommit 2, TrxRollback 2]"
  by (simp add: runInTransaction.simps env_defs Let_def w0_def commit_broken_def
      returning_def retry_twice_def no_options_def debugging_def database_of_def)

text \<open>
  C5, amended. When the unit of work returns and the commit that follows fails with
  \<open>e\<close>, the \<open>catch\<close> block runs as it does after a failure of the unit of work: the
  transaction is rolled back; if the rollback fails, its failure is the outcome;
  otherwise, with retry configured and attempts left, the whole call is made again
  after the timer, with one attempt less and no context current, and in every other case
  the call fails with \<open>e\<close>.
\<close>

theorem commit_failure_is_caught:
  assumes "getCurrentContext w = None"
      and "transaction_fails dl (database_of opts) (isolationLevel opts) (opened w) = None"
      and "fn (body_world opts w) = (Inr result, w')"
      and "commit_fails dl (opened w) = Some e"
  shows "runInTransaction dl fn opts w =
          (case rollback_fails dl (opened w) of
             Some e' \<Rightarrow>
               (Inl e', (commit_failed w w')
                  \<lparr>calls := calls (commit_failed w w') @ [TrxRollback (opened w)]\<rparr>)
           | None \<Rightarrow>
              (case retry opts of
                 None \<Rightarrow> (Inl e, rolled_back opts w (commit_failed w w'))
               | Some r \<Rightarrow>
                  if attempts r > 0
                  then runInTransaction dl fn (fewer_attempts opts r)
                         (retry_world opts r w (commit_failed w w'))
                  else (Inl e, rolled_back opts w (commit_failed w w'))))
       \<and> calls (rolled_back opts w (commit_failed w w')) =
           calls w' @ [TrxCommit (opened w), TrxRollback (opened w)]
       \<and> calls (retry_world opts r w (commit_failed w w')) =
           calls w' @ [TrxCommit (opened w), TrxRollback (opened w), SetTimeout (delay r)]
       \<and> getCurrentContext (retry_world opts r w (commit_failed w w')) = None"
  using run_caught_commit [where fn = fn, OF assms]
  by (simp add: getCurrentContext_def)

theorem commit_failure_is_caught_witness:
  "getCurrentContext w0 = None
   \<and> transaction_fails commit_broken (database_of no_options) (isolationLevel no_options)
       (opened w0) = None
   \<and> returning (1::nat) (body_world no_options w0) = (Inr 1, body_world no_options w0)
   \<and> commit_fails commit_broken (opened w0) = Some (Error ''Error'' ''commit failed'')
   \<and> runInTransaction commit_broken (returning (1::nat)) no_options w0 =
       (Inl (Error ''Error'' ''commit failed''),
        rolled_back no_options w0 (commit_failed w0 (body_world no_options w0)))"
proof -
  have top: "getCurrentContext w0 = None"
    by (simp add: w0_def getCurrentContext_def)
  have ok: "transaction_fails commit_broken (database_of no_options)
              (isolationLevel no_options) (opened w0) = None"
    and c: "commit_fails commit_broken (opened w0) = Some (Error ''Error'' ''commit failed'')"
    and rb: "rollback_fails commit_broken (opened w0) = None"
    by (simp_all add: commit_broken_def)
  have body: "returning (1::nat) (body_world no_options w0) = (Inr 1, body_world no_options w0)"
    by (simp add: returning_def)
  have nr: "retry no_options = None"
    by (simp add: no_options_def)
  note inst = commit_failure_is_caught [where fn = "returning (1::nat)", OF top ok body c]
  have "runInTransaction commit_broken (returning (1::nat)) no_options w0 =
        (Inl (Error ''Error'' ''commit failed''),
         rolled_back no_options w0 (commit_failed w0 (body_world no_options w0)))"
    using inst rb nr by simp
  then show ?thesis
    using top ok body c by simp
qed

text \<open>
  C6, as the claim states it, fails in its second half: \<open>database.transaction\<close> is called
  before the \<open>try\<close> block. Here no transaction can be opened and two attempts are
  configured: the call asks the data layer once, sets no timer and fails.
\<close>

theorem open_failure_counterexample:
  "retry retry_twice = Some \<lparr>attempts = 2, delay = 50\<rparr>
   \<and> runInTransaction unreachable (returning (1::nat)) retry_twice w0 =
       (Inl (Error ''Error'' ''connection refused''),
        w0\<lparr>transactionCounter := 1, calls := [OpenFailed Db None]\<rparr>)"
  by (simp add: runInTransaction.simps env_defs Let_def w0_def unreachable_def
      retry_twice_def no_options_def debugging_def database_of_def)

text \<open>
  C6, amended. When the data layer fails to open the transaction in a top-level call,
  the call fails with that failure, whatever the options say about retry: the unit of
  work is not run, and the one call made to the data layer is the failed open (no
  rollback, no timer, no second open).
\<close>

theorem open_failure_surfaces:
  assumes "getCurrentContext w = None"
      and "transaction_fails dl (database_of opts) (isolationLevel opts) (opened w) = Some e"
  shows "runInTransaction dl fn opts w =
           (Inl e, w\<lparr>transactionCounter := Suc (transactionCounter w),
                     calls := calls w @ [OpenFailed (database_of opts) (isolationLevel opts)]\<rparr>)"
  using run_open_failed [where fn = fn, OF assms] .

theorem open_failure_surfaces_witness:
  "getCurrentContext w0 = None
   \<and> transaction_fails unreachable (database_of retry_twice) (isolationLevel retry_twice)
       (opened w0) = Some (Error ''Error'' ''connection refused'')
   \<and> runInTransaction unreachable (failing_with_handle :: nat action) retry_twice w0 =
       (Inl (Error ''Error'' ''connection refused''),
        w0\<lparr>transactionCounter := Suc (transactionCounter w0),
           calls := calls w0 @
             [OpenFailed (database_of retry_twice) (isolationLevel retry_twice)]\<rparr>)"
proof -
  have top: "getCurrentContext w0 = None"
    by (simp add: w0_def getCurrentContext_def)
  have bad: "transaction_fails unreachable (database_of retry_twice)
               (isolationLevel retry_twice) (opened w0) =
             Some (Error ''Error'' ''connection refused'')"
    by (simp add: unreachable_def)
  show ?thesis
    using top bad open_failure_surfaces [where fn = "failing_with_handle :: nat action",
      OF top bad]
    by simp
qed

section \<open>Injection of the current transaction\<close>

lemma map_of_set_field: "map_of (set_field k v fs) = (map_of fs)(k \<mapsto> v)"
  by (induction fs) auto

text \<open>
  C7. Options whose \<open>client\<close> field holds a truthy value, as every transaction handle
  is, come back as they are, whatever transaction is current; and with no transaction
  current \<open>injectTransaction\<close> returns the options it was given, or the empty object when
  it was given none.
\<close>

theorem injectTransaction_keeps_explicit_client:
  "(map_of fs ''client'' = Some x \<and> truthy x \<longrightarrow> injectTransaction (Some fs) w = fs)
   \<and> truthy (JTrx h)
   \<and> (getCurrentTransaction v = None \<longrightarrow>
        injectTransaction ob v = (case ob of None \<Rightarrow> [] | Some gs \<Rightarrow> gs))"
  by (simp add: injectTransaction_def optional_field_def or_empty_def split: option.splits)

theorem injectTransaction_keeps_explicit_client_witness:
  "getCurrentTransaction in_transaction = Some 0
   \<and> map_of [(''client'', JTrx 7), (''x'', JNum 1)] ''client'' = Some (JTrx 7)
   \<and> truthy (JTrx 7)
   \<and> injectTransaction (Some [(''client'', JTrx 7), (''x'', JNum 1)]) in_transaction =
       [(''client'', JTrx 7), (''x'', JNum 1)]
   \<and> getCurrentTransaction w0 = None
   \<and> injectTransaction None w0 = []"
proof -
  have cur: "getCurrentTransaction in_transaction = Some 0"
    by (simp add: in_transaction_def getCurrentTransaction_def getCurrentContext_def
        fresh_context_def w0_def)
  have has: "map_of [(''client'', JTrx 7), (''x'', JNum 1)] ''client'' = Some (JTrx 7)"
    and tr: "truthy (JTrx 7)"
    by simp_all
  have none: "getCurrentTransaction w0 = None"
    by (simp add: w0_def getCurrentTransaction_def getCurrentContext_def)
  note inst = injectTransaction_keeps_explicit_client
    [of "[(''client'', JTrx 7), (''x'', JNum 1)]" "JTrx 7" in_transaction 7 w0 None]
  have kept: "injectTransaction (Some [(''client'', JTrx 7), (''x'', JNum 1)]) in_transaction =
       [(''client'', JTrx 7), (''x'', JNum 1)]"
    using inst has tr by blast
  have "injectTransaction None w0 = (case None of None \<Rightarrow> [] | Some gs \<Rightarrow> gs)"
    using inst none by blast
  then have empty: "injectTransaction None w0 = []"
    by simp
  show ?thesis
    using cur has tr kept none empty by simp
qed

text \<open>
  C10. What counts as an explicit \<open>client\<close> is its truthiness: with a transaction
  current, options that have a \<open>client\<close> field holding a falsy value (\<open>null\<close>,
  \<open>undefined\<close> and \<open>false\<close> are falsy) come back with that field set to the current
  handle, every other field as it was.
\<close>

theorem injectTransaction_overwrites_falsy_client:
  assumes "getCurrentTransaction w = Some trx"
      and "map_of fs ''client'' = Some x"
      and "\<not> truthy x"
  shows "injectTransaction (Some fs) w = set_field ''client'' (JTrx trx) fs
       \<and> map_of (injectTransaction (Some fs) w) = (map_of fs)(''client'' \<mapsto> JTrx trx)
       \<and> \<not> truthy JNull \<and> \<not> truthy JUndefined \<and> \<not> truthy (JBool False)"
  using assms
  by (simp add: injectTransaction_def optional_field_def or_empty_def map_of_set_field)

theorem injectTransaction_overwrites_falsy_client_witness:
  "getCurrentTransaction in_transaction = Some 0
   \<and> map_of [(''client'', JNull), (''x'', JNum 1)] ''client'' = Some JNull
   \<and> \<not> truthy JNull
   \<and> injectTransaction (Some [(''client'', JNull), (''x'', JNum 1)]) in_transaction =
       [(''client'', JTrx 0), (''x'', JNum 1)]"
proof -
  have cur: "getCurrentTransaction in_transaction = Some 0"
    by (simp add: in_transaction_def getCurrentTransaction_def getCurrentContext_def
        fresh_context_def w0_def)
  have has: "map_of [(''client'', JNull), (''x'', JNum 1)] ''client'' = Some JNull"
    and fl: "\<not> truthy JNull"
    by simp_all
  show ?thesis
    using cur has fl injectTransaction_overwrites_falsy_client [OF cur has fl]
    by simp
qed

section \<open>\<open>conditional\<close> and \<open>withSavepoint\<close>\<close>

text \<open>
  C8, as the claim states it, fails in its last part: the skipped result is \<open>null\<close>,
  and \<open>null\<close> is a value an operation can return. Here the operation returns \<open>null\<close>:
  the call that skips it and the call that runs it give the same result.
\<close>

theorem conditional_skipped_counterexample:
  "fst (conditional healthy (returning False) (returning JNull) no_options w0) = Inr JNull
   \<and> fst (returning JNull w0) = (Inr JNull :: error + jsval)
   \<and> fst (conditional healthy (returning True) (returning JNull) no_options w0) = Inr JNull"
  by (simp add: conditional_def runInTransaction.simps env_defs Let_def w0_def healthy_def
      returning_def no_options_def debugging_def database_of_def)

text \<open>
  C8, amended. When the predicate returns false, \<open>conditional\<close> returns \<open>null\<close> in the
  world the predicate left: the operation is not run and no call is made to the data
  layer. The result differs from every result of the operation when the operation
  never returns \<open>null\<close>.
\<close>

theorem conditional_false_skips:
  assumes "condition w = (Inr False, w1)"
  shows "conditional dl condition operation opts w = (Inr JNull, w1)
       \<and> ((\<forall>v. fst (operation v) \<noteq> Inr JNull) \<longrightarrow>
            (\<forall>v. fst (conditional dl condition operation opts w) \<noteq> fst (operation v)))"
  using assms by (auto simp add: conditional_def)

theorem conditional_false_skips_witness:
  "returning False w0 = (Inr False, w0)
   \<and> conditional unreachable (returning False) (returning (JNum 1)) retry_twice w0 =
       (Inr JNull, w0)
   \<and> (\<forall>v. fst (returning (JNum 1) v) \<noteq> (Inr JNull :: error + jsval))
   \<and> (\<forall>v. fst (conditional unreachable (returning False) (returning (JNum 1)) retry_twice w0)
           \<noteq> fst (returning (JNum 1) v))"
proof -
  have cond: "returning False w0 = (Inr False, w0)"
    by (simp add: returning_def)
  have real: "\<forall>v. fst (returning (JNum 1) v) \<noteq> (Inr JNull :: error + jsval)"
    by (simp add: returning_def)
  note inst = conditional_false_skips [where dl = unreachable and opts = retry_twice
    and operation = "returning (JNum 1)" and condition = "returning False", OF cond]
  show ?thesis
    using cond real inst by blast
qed

text \<open>
  C9. With no transaction current, \<open>withSavepoint\<close> fails with its own error, an
  \<open>Error\<close> whose message names the misuse, in the world it was called in: the result does
  not depend on the operation, which is not run.
\<close>

theorem withSavepoint_outside_transaction:
  assumes "getCurrentTransaction w = None"
  shows "withSavepoint name operation w =
     (Inl (Error ''Error'' ''withSavepoint can only be used within an existing transaction''),
      w)"
  using assms by (simp add: withSavepoint_def)

theorem withSavepoint_outside_transaction_witness:
  "getCurrentTransaction w0 = None
   \<and> withSavepoint ''sp'' (returning (1::nat)) w0 =
      (Inl (Error ''Error'' ''withSavepoint can only be used within an existing transaction''),
       w0)"
proof -
  have none: "getCurrentTransaction w0 = None"
    by (simp add: w0_def getCurrentTransaction_def getCurrentContext_def)
  show ?thesis
    using none withSavepoint_outside_transaction [OF none, of "''sp''" "returning (1::nat)"]
    by simp
qed

end
